theory Spec2Isabelle
  imports Main "HOL-Library.Sublist"
begin

section \<open>Data model of the advanced asset-index filters\<close>

text \<open>
  The development embeds
  \<^verbatim>\<open>app/components/assets/assets-index/advanced-filters/helpers.ts\<close>:
  the field type resolver \<^verbatim>\<open>getUIFieldType\<close>, the parser of the search
  parameters \<^verbatim>\<open>useInitialFilters\<close>, the default value generator
  \<^verbatim>\<open>getDefaultValueForFieldType\<close> and the column availability resolver
  \<^verbatim>\<open>getAvailableColumns\<close>.
  JavaScript strings are modelled as \<^typ>\<open>string\<close>; the only characters the
  code inspects are the ASCII separators of \<^verbatim>\<open>split\<close> and ASCII literals.
\<close>

subsection \<open>UI field types\<close>

text \<open>The union type \<^verbatim>\<open>UIFieldType\<close>, in the order of its declaration.\<close>

datatype UIFieldType =
  UI_string | UI_text | UI_boolean | UI_date | UI_number | UI_enum | UI_array

text \<open>The string literal each member of the union stands for.\<close>

fun uiFieldTypeLiteral :: "UIFieldType \<Rightarrow> string" where
  "uiFieldTypeLiteral UI_string = ''string''"
| "uiFieldTypeLiteral UI_text = ''text''"
| "uiFieldTypeLiteral UI_boolean = ''boolean''"
| "uiFieldTypeLiteral UI_date = ''date''"
| "uiFieldTypeLiteral UI_number = ''number''"
| "uiFieldTypeLiteral UI_enum = ''enum''"
| "uiFieldTypeLiteral UI_array = ''array''"

text \<open>The table \<^verbatim>\<open>uiFieldTypeNames\<close> of friendly names.\<close>

fun uiFieldTypeNames :: "UIFieldType \<Rightarrow> string" where
  "uiFieldTypeNames UI_string = ''Single-line text''"
| "uiFieldTypeNames UI_text = ''Multi-line text''"
| "uiFieldTypeNames UI_boolean = ''Yes/No''"
| "uiFieldTypeNames UI_date = ''Date''"
| "uiFieldTypeNames UI_number = ''Number''"
| "uiFieldTypeNames UI_enum = ''Option''"
| "uiFieldTypeNames UI_array = ''List''"

subsection \<open>Columns, custom fields, filters and sorts\<close>

text \<open>
  Modelled from the spec: the type \<^verbatim>\<open>Column\<close> is declared in
  \<^verbatim>\<open>~/modules/asset-index-settings/helpers\<close>, which is not among the sources.
  The record has the fields that \<^verbatim>\<open>helpers.ts\<close> reads: the name, the
  visibility flag and the optional primitive kind \<^verbatim>\<open>cfType\<close> of a custom
  field (\<open>None\<close> is \<^verbatim>\<open>undefined\<close>). The kind is kept as a string so that
  kinds outside the five the code names can be written.
\<close>

record column =
  name :: string
  visible :: bool
  cfType :: "string option"

text \<open>
  Modelled from the spec: the Prisma type \<^verbatim>\<open>CustomField\<close> is not among the
  sources. The code reads \<^verbatim>\<open>name\<close> and \<^verbatim>\<open>options\<close> only; the option
  list is optional, as the access \<^verbatim>\<open>customField?.options?.[0]\<close> allows.
\<close>

record customField =
  cf_name :: string
  cf_type :: string
  cf_options :: "string list option"

text \<open>
  The value of a filter: \<^verbatim>\<open>undefined\<close>, one string, or the array that
  \<^verbatim>\<open>filterValue.split(",")\<close> returns.
\<close>

datatype filterValue = Undefined | Scalar string | Items "string list"

text \<open>
  Modelled from the spec: the type \<^verbatim>\<open>Filter\<close> is declared in
  \<^verbatim>\<open>./schema\<close>, which is not among the sources. The record has the four
  fields of the object literal that \<^verbatim>\<open>useInitialFilters\<close> pushes. The
  operator is the first element of a destructured array, so it is optional here
  (\<open>None\<close> is \<^verbatim>\<open>undefined\<close>).
\<close>

record filter =
  f_name :: string
  f_operator :: "string option"
  f_value :: filterValue
  f_type :: string

text \<open>
  Modelled from the spec: the type \<^verbatim>\<open>Sort\<close> is declared in
  \<^verbatim>\<open>../advanced-asset-index-filters-and-sorting\<close>, which is not among the
  sources: a column identifier and a direction.
\<close>

record sort =
  s_name :: string
  s_direction :: string

text \<open>An element of \<^verbatim>\<open>Array<Filter | Sort>\<close> and its \<^verbatim>\<open>name\<close>.\<close>

datatype usedColumn = UsedFilter filter | UsedSort sort

fun used_name :: "usedColumn \<Rightarrow> string" where
  "used_name (UsedFilter f) = f_name f"
| "used_name (UsedSort s) = s_name s"

text \<open>The parameter \<^verbatim>\<open>operation: "filter" | "sort"\<close>.\<close>

datatype operation = Op_filter | Op_sort

text \<open>The exception a method call on \<^verbatim>\<open>undefined\<close> raises.\<close>

datatype error = TypeError

section \<open>JavaScript primitives used by the code\<close>

text \<open>
  \<^verbatim>\<open>s.split(sep)\<close> for a separator of one character: every occurrence of the
  separator ends a piece, and the result always has at least one piece
  (\<^verbatim>\<open>"".split(":")\<close> is \<^verbatim>\<open>[""]\<close>).
\<close>

fun js_split :: "char \<Rightarrow> string \<Rightarrow> string list" where
  "js_split sep [] = [[]]"
| "js_split sep (c # cs) =
     (if c = sep then [] # js_split sep cs
      else (case js_split sep cs of
              [] \<Rightarrow> [[c]]
            | w # ws \<Rightarrow> (c # w) # ws))"

text \<open>Reading an array at an index: \<^verbatim>\<open>undefined\<close> out of range.\<close>

fun js_index :: "'a list \<Rightarrow> nat \<Rightarrow> 'a option" where
  "js_index [] i = None"
| "js_index (x # xs) 0 = Some x"
| "js_index (x # xs) (Suc i) = js_index xs i"

text \<open>
  \<^verbatim>\<open>x || ""\<close> for an optional string: \<^verbatim>\<open>undefined\<close> and the empty
  string are falsy.
\<close>

fun or_empty :: "string option \<Rightarrow> string" where
  "or_empty None = []"
| "or_empty (Some s) = (if s = [] then [] else s)"

section \<open>The field type resolver\<close>

text \<open>
  The \<^verbatim>\<open>switch\<close> on \<^verbatim>\<open>column.name\<close> that assigns
  \<^verbatim>\<open>fieldType\<close>, with the nested \<^verbatim>\<open>switch\<close> on
  \<^verbatim>\<open>column.cfType\<close> in its default branch.
\<close>

definition fieldTypeOf :: "column \<Rightarrow> UIFieldType" where
  "fieldTypeOf column =
     (if name column = ''id'' \<or> name column = ''name'' then UI_string
      else if name column = ''custody'' \<or> name column = ''status''
              \<or> name column = ''category'' \<or> name column = ''location''
              \<or> name column = ''kit'' then UI_enum
      else if name column = ''description'' then UI_text
      else if name column = ''valuation'' then UI_number
      else if name column = ''availableToBook'' then UI_boolean
      else if name column = ''createdAt'' then UI_date
      else if name column = ''tags'' then UI_array
      else if prefix ''cf_'' (name column) then
        (if cfType column = Some ''TEXT'' then UI_string
         else if cfType column = Some ''MULTILINE_TEXT'' then UI_text
         else if cfType column = Some ''BOOLEAN'' then UI_boolean
         else if cfType column = Some ''DATE'' then UI_date
         else if cfType column = Some ''OPTION'' then UI_enum
         else UI_string)
      else UI_string)"

definition getUIFieldType :: "column \<Rightarrow> bool \<Rightarrow> string" where
  "getUIFieldType column friendlyName =
     (let fieldType = fieldTypeOf column
      in if friendlyName then uiFieldTypeNames fieldType
         else uiFieldTypeLiteral fieldType)"

section \<open>The filter parameter parser\<close>

text \<open>
  The body of the callback of \<^verbatim>\<open>searchParams.forEach\<close> for a key that has
  a column: the destructuring of \<^verbatim>\<open>value.split(":")\<close> into the first two
  pieces and the object literal. \<^verbatim>\<open>filterValue.split(",")\<close> raises when
  \<^verbatim>\<open>filterValue\<close> is \<^verbatim>\<open>undefined\<close>.
\<close>

definition makeFilter :: "column \<Rightarrow> string \<Rightarrow> string \<Rightarrow> error + filter" where
  "makeFilter column key val =
     (let parts = js_split CHR '':'' val;
          operator = js_index parts 0;
          filterValue = js_index parts 1
      in if operator = Some ''between'' then
           (case filterValue of
              None \<Rightarrow> Inl TypeError
            | Some v \<Rightarrow>
                Inr \<lparr>f_name = key, f_operator = operator,
                     f_value = Items (js_split CHR '','' v),
                     f_type = getUIFieldType column False\<rparr>)
         else
           Inr \<lparr>f_name = key, f_operator = operator,
                f_value = (case filterValue of None \<Rightarrow> Undefined | Some v \<Rightarrow> Scalar v),
                f_type = getUIFieldType column False\<rparr>)"

text \<open>
  The loop \<^verbatim>\<open>searchParams.forEach((value, key) => ...)\<close> over the parameters
  in their order, with the array \<^verbatim>\<open>initialFilters\<close> as the state that
  \<^verbatim>\<open>push\<close> extends. An exception leaves the loop and the function.
\<close>

fun forEach_params :: "column list \<Rightarrow> (string \<times> string) list \<Rightarrow> filter list \<Rightarrow> error + filter list" where
  "forEach_params columns [] initialFilters = Inr initialFilters"
| "forEach_params columns ((key, val) # rest) initialFilters =
     (case find (\<lambda>c. name c = key) columns of
        None \<Rightarrow> forEach_params columns rest initialFilters
      | Some column \<Rightarrow>
          (case makeFilter column key val of
             Inl e \<Rightarrow> Inl e
           | Inr f \<Rightarrow> forEach_params columns rest (initialFilters @ [f])))"

text \<open>
  \<^verbatim>\<open>useInitialFilters\<close>; the search parameters that the hook
  \<^verbatim>\<open>useSearchParams\<close> supplies are the first argument, as the list of
  (key, value) pairs that \<^verbatim>\<open>forEach\<close> visits.
\<close>

definition useInitialFilters :: "(string \<times> string) list \<Rightarrow> column list \<Rightarrow> error + filter list" where
  "useInitialFilters searchParams columns = forEach_params columns searchParams []"

section \<open>The default value generator\<close>

text \<open>The values \<^verbatim>\<open>getDefaultValueForFieldType\<close> returns (its type is \<^verbatim>\<open>any\<close>).\<close>

datatype defaultValue = DUndefined | DBool bool | DNumber int | DString string

text \<open>
  \<^verbatim>\<open>new Date().toISOString().split("T")[0]\<close>, with the ISO string of the
  current instant as an argument.
\<close>

definition isoDate :: "string \<Rightarrow> defaultValue" where
  "isoDate nowISO =
     (case js_index (js_split CHR ''T'' nowISO) 0 of
        None \<Rightarrow> DUndefined
      | Some d \<Rightarrow> DString d)"

text \<open>
  \<^verbatim>\<open>customFields?.find((cf) => `cf_${cf.name}` === column.name)\<close>;
  \<open>None\<close> as the catalog is \<^verbatim>\<open>null\<close>.
\<close>

definition findCustomField :: "customField list option \<Rightarrow> column \<Rightarrow> customField option" where
  "findCustomField customFields column =
     (case customFields of
        None \<Rightarrow> None
      | Some cfs \<Rightarrow> find (\<lambda>cf. ''cf_'' @ cf_name cf = name column) cfs)"

text \<open>\<^verbatim>\<open>customField?.options?.[0] || ""\<close>.\<close>

definition firstOption :: "customField option \<Rightarrow> string" where
  "firstOption customField =
     or_empty (case customField of
                 None \<Rightarrow> None
               | Some cf \<Rightarrow> (case cf_options cf of
                              None \<Rightarrow> None
                            | Some os \<Rightarrow> js_index os 0))"

definition getDefaultValueForFieldType :: "string \<Rightarrow> column \<Rightarrow> customField list option \<Rightarrow> defaultValue" where
  "getDefaultValueForFieldType nowISO column customFields =
     (if prefix ''cf_'' (name column) then
        (let customField = findCustomField customFields column
         in if cfType column = Some ''DATE'' then isoDate nowISO
            else if cfType column = Some ''BOOLEAN'' then DBool True
            else if cfType column = Some ''OPTION'' then DString (firstOption customField)
            else if cfType column = Some ''TEXT'' \<or> cfType column = Some ''MULTILINE_TEXT''
              then DString ''''
            else DString '''')
      else
        (let t = getUIFieldType column False
         in if t = ''boolean'' then DBool True
            else if t = ''date'' then isoDate nowISO
            else if t = ''number'' then DNumber 0
            else DString ''''))"

section \<open>The column availability resolver\<close>

definition getAvailableColumns :: "column list \<Rightarrow> usedColumn list \<Rightarrow> operation \<Rightarrow> column list" where
  "getAvailableColumns columns usedColumns operation =
     (let availableColumns =
            filter (\<lambda>column. visible column
                      \<and> find (\<lambda>f. used_name f = name column) usedColumns = None)
                   columns
      in filter (\<lambda>column.
           if \<not> visible column then False
           else if operation = Op_sort then
             (if name column \<in> set [''tags''] then False
              else if prefix ''cf_'' (name column) then
                or_empty (cfType column) \<notin> set [''MULTILINE_TEXT'']
              else True)
           else if operation = Op_filter then
             (if name column \<in> set ([] :: string list) then False else True)
           else True) availableColumns)"

section \<open>Facts about the JavaScript primitives\<close>

lemma js_split_nonempty: "js_split sep s \<noteq> []"
  by (induction s) (auto split: list.splits)

lemma js_split_first: "sep \<notin> set d \<Longrightarrow> js_split sep (d @ sep # r) = d # js_split sep r"
  by (induction d) auto

lemma js_split_single: "js_split sep s = [w] \<Longrightarrow> s = w \<and> sep \<notin> set w"
proof (induction s arbitrary: w)
  case Nil
  then show ?case by simp
next
  case (Cons c cs)
  show ?case
  proof (cases "c = sep")
    case True
    with Cons.prems show ?thesis by (simp add: js_split_nonempty)
  next
    case False
    obtain u us where u: "js_split sep cs = u # us"
      using js_split_nonempty [of sep cs] by (cases "js_split sep cs") auto
    with Cons.prems False have "us = []" "w = c # u" by auto
    with u Cons.IH [of u] False show ?thesis by auto
  qed
qed

lemma js_index_split_0: "\<exists>w. js_index (js_split sep s) 0 = Some w"
  using js_split_nonempty [of sep s] by (cases "js_split sep s") auto

section \<open>Facts about the field type resolver\<close>

lemma fieldTypeOf_array_iff: "fieldTypeOf c = UI_array \<longleftrightarrow> name c = ''tags''"
  by (simp add: fieldTypeOf_def)

lemma literal_array_iff: "uiFieldTypeLiteral t = ''array'' \<longleftrightarrow> t = UI_array"
  by (cases t) simp_all

lemma literal_boolean_iff: "uiFieldTypeLiteral t = ''boolean'' \<longleftrightarrow> t = UI_boolean"
  by (cases t) simp_all

lemma literal_date_iff: "uiFieldTypeLiteral t = ''date'' \<longleftrightarrow> t = UI_date"
  by (cases t) simp_all

lemma fieldTypeOf_custom:
  assumes "prefix ''cf_'' (name c)"
  shows "fieldTypeOf c =
           (if cfType c = Some ''TEXT'' then UI_string
            else if cfType c = Some ''MULTILINE_TEXT'' then UI_text
            else if cfType c = Some ''BOOLEAN'' then UI_boolean
            else if cfType c = Some ''DATE'' then UI_date
            else if cfType c = Some ''OPTION'' then UI_enum
            else UI_string)"
proof -
  from assms obtain r where "name c = ''cf_'' @ r" by (auto simp: prefix_def)
  then show ?thesis by (simp add: fieldTypeOf_def)
qed

lemma isoDate_first: "CHR ''T'' \<notin> set d \<Longrightarrow> isoDate (d @ CHR ''T'' # t) = DString d"
  by (simp add: isoDate_def js_split_first)

text \<open>
  Which entry the lookup of the custom field returns: the first entry of the catalog
  whose name, after the prefix \<^verbatim>\<open>cf_\<close>, is the name of the column; none when
  no entry has that name or the catalog is \<^verbatim>\<open>null\<close>.
\<close>

lemma findCustomField_first:
  assumes "\<forall>e \<in> set before. ''cf_'' @ cf_name e \<noteq> name column"
    and "''cf_'' @ cf_name cf = name column"
  shows "findCustomField (Some (before @ cf # after)) column = Some cf"
  using assms by (induction before) (simp_all add: findCustomField_def)

lemma findCustomField_no_entry:
  assumes "\<forall>e \<in> set cfs. ''cf_'' @ cf_name e \<noteq> name column"
  shows "findCustomField (Some cfs) column = None"
  using assms by (simp add: findCustomField_def find_None_iff)

lemma findCustomField_null: "findCustomField None column = None"
  by (simp add: findCustomField_def)

section \<open>Facts about the parser\<close>

text \<open>
  The callback raises exactly when the raw value is the word \<^verbatim>\<open>between\<close>
  alone: the operator is then the range operator and there is no second piece.
\<close>

lemma makeFilter_raises_iff: "(makeFilter c k v = Inl e) \<longleftrightarrow> v = ''between''"
proof
  assume r: "makeFilter c k v = Inl e"
  obtain w ws where p: "js_split CHR '':'' v = w # ws"
    using js_split_nonempty [of "CHR '':''" v] by (cases "js_split CHR '':'' v") auto
  from r p have "w = ''between''" "ws = []"
    by (auto simp: makeFilter_def Let_def split: if_splits option.splits list.splits elim: js_index.elims)
  with p js_split_single [of "CHR '':''" v w] show "v = ''between''" by simp
next
  assume "v = ''between''"
  then show "makeFilter c k v = Inl e"
    by (cases e) (simp add: makeFilter_def)
qed

lemma makeFilter_name: "makeFilter c k v = Inr f \<Longrightarrow> f_name f = k"
  by (auto simp: makeFilter_def Let_def split: if_splits option.splits)

text \<open>
  What the callback does with a raw value that has a colon: the operator is the part
  before the first colon, the value is made from the second piece of the split only.
\<close>

lemma makeFilter_colon:
  assumes "CHR '':'' \<notin> set opr"
  shows "makeFilter c k (opr @ CHR '':'' # r) =
           Inr \<lparr>f_name = k, f_operator = Some opr,
                f_value = (case js_split CHR '':'' r of
                             [] \<Rightarrow> Undefined
                           | w # ws \<Rightarrow> if opr = ''between''
                                       then Items (js_split CHR '','' w)
                                       else Scalar w),
                f_type = getUIFieldType c False\<rparr>"
proof -
  obtain w ws where p: "js_split CHR '':'' r = w # ws"
    using js_split_nonempty [of "CHR '':''" r] by (cases "js_split CHR '':'' r") auto
  show ?thesis
    using assms p by (simp add: makeFilter_def js_split_first)
qed

lemma forEach_params_order:
  assumes "forEach_params columns ps acc = Inr fs"
    and "\<forall>p \<in> set ps. find (\<lambda>c. name c = fst p) columns \<noteq> None"
  shows "\<exists>gs. fs = acc @ gs \<and>
           list_all2 (\<lambda>p f. \<exists>c. find (\<lambda>c. name c = fst p) columns = Some c
                              \<and> makeFilter c (fst p) (snd p) = Inr f) ps gs"
  using assms
proof (induction ps arbitrary: acc)
  case Nil
  then show ?case by simp
next
  case (Cons p ps)
  obtain k v where p: "p = (k, v)" by (cases p)
  from Cons.prems(2) p obtain c where c: "find (\<lambda>c. name c = k) columns = Some c"
    by auto
  from Cons.prems(1) p c obtain f where f: "makeFilter c k v = Inr f"
    and rest: "forEach_params columns ps (acc @ [f]) = Inr fs"
    by (auto split: sum.splits)
  from Cons.IH [OF rest] Cons.prems(2) obtain gs
    where gs: "fs = (acc @ [f]) @ gs"
      "list_all2 (\<lambda>p f. \<exists>c. find (\<lambda>c. name c = fst p) columns = Some c
                     \<and> makeFilter c (fst p) (snd p) = Inr f) ps gs"
    by auto
  with p c f show ?case by (intro exI [of _ "f # gs"]) simp
qed

lemma list_all2_names:
  "list_all2 (\<lambda>p f. \<exists>c. find (\<lambda>c. name c = fst p) columns = Some c
                 \<and> makeFilter c (fst p) (snd p) = Inr f) ps gs
   \<Longrightarrow> map f_name gs = map fst ps"
  by (induction rule: list_all2_induct) (auto simp: makeFilter_name)

lemma forEach_params_skip:
  assumes "find (\<lambda>c. name c = k) columns = None"
  shows "forEach_params columns (ps1 @ (k, v) # ps2) acc = forEach_params columns (ps1 @ ps2) acc"
proof (induction ps1 arbitrary: acc)
  case Nil
  show ?case using assms by simp
next
  case (Cons p ps1)
  obtain k' v' where p: "p = (k', v')" by (cases p)
  show ?case using Cons.IH p by (simp split: option.splits sum.splits)
qed

text \<open>
  The parse returns a list exactly when no parameter that has a column carries the raw
  value \<^verbatim>\<open>between\<close>.
\<close>

lemma forEach_params_returns_iff:
  "(\<exists>fs. forEach_params columns ps acc = Inr fs) \<longleftrightarrow>
   (\<forall>p \<in> set ps. find (\<lambda>c. name c = fst p) columns \<noteq> None \<longrightarrow> snd p \<noteq> ''between'')"
proof (induction ps arbitrary: acc)
  case Nil
  show ?case by simp
next
  case (Cons p ps)
  obtain k v where p: "p = (k, v)" by (cases p)
  show ?case
  proof (cases "find (\<lambda>c. name c = k) columns")
    case None
    with Cons.IH [of acc] p show ?thesis by simp
  next
    case (Some c)
    show ?thesis
    proof (cases "makeFilter c k v")
      case (Inl e)
      with makeFilter_raises_iff [of c k v e] have "v = ''between''" by simp
      with Inl Some p show ?thesis by simp
    next
      case (Inr f)
      have "v \<noteq> ''between''"
      proof
        assume "v = ''between''"
        with makeFilter_raises_iff [of c k v TypeError] Inr show False by simp
      qed
      with Inr Some p Cons.IH [of "acc @ [f]"] show ?thesis by simp
    qed
  qed
qed

lemma find_name_Some:
  assumes "\<exists>c \<in> set columns. name c = k"
  obtains c where "find (\<lambda>c. name c = k) columns = Some c" and "name c = k"
proof -
  from assms have "find (\<lambda>c. name c = k) columns \<noteq> None"
    by (auto simp: find_None_iff)
  then obtain c where c: "find (\<lambda>c. name c = k) columns = Some c" by auto
  then have "name c = k" by (auto simp: find_Some_iff)
  with c that show thesis by blast
qed

section \<open>The claims about the parser\<close>

text \<open>
  Claim C1: for every list of request parameters and every column catalog the parser
  raises no exception and returns a list of filter descriptors, also for a raw value
  whose operator is the range operator \<^verbatim>\<open>between\<close> and that has no colon.
  The code does not do this: for the parameter \<^verbatim>\<open>valuation=between\<close> and a
  catalog with the column \<^verbatim>\<open>valuation\<close>, the split has one piece,
  \<^verbatim>\<open>filterValue\<close> is \<^verbatim>\<open>undefined\<close>, and
  \<^verbatim>\<open>filterValue.split(",")\<close> raises a TypeError.
\<close>

theorem useInitialFilters_between_without_colon_raises:
  "useInitialFilters [(''valuation'', ''between'')]
     [\<lparr>name = ''valuation'', visible = True, cfType = None\<rparr>] = Inl TypeError"
  by (simp add: useInitialFilters_def makeFilter_def)

text \<open>
  Claim C2: for a parameter whose key has a column and whose raw value has a colon, the
  operator of the descriptor is the part before the first colon and, for an operator
  other than the range operator, the value is the whole rest after the first colon,
  further colons included. The code keeps the second piece of
  \<^verbatim>\<open>value.split(":")\<close> only: for \<^verbatim>\<open>name=contains:a:b\<close> the value of the
  descriptor is \<^verbatim>\<open>a\<close>, not \<^verbatim>\<open>a:b\<close>.
\<close>

theorem useInitialFilters_drops_after_second_colon:
  "useInitialFilters [(''name'', ''contains:a:b'')]
     [\<lparr>name = ''name'', visible = True, cfType = None\<rparr>]
   = Inr [\<lparr>f_name = ''name'', f_operator = Some ''contains'',
           f_value = Scalar ''a'', f_type = ''string''\<rparr>]"
  by (simp add: useInitialFilters_def makeFilter_def getUIFieldType_def fieldTypeOf_def)

text \<open>
  Claim C3: the wire form \<^verbatim>\<open>valuation=between:10,50\<close> of the descriptor with
  name \<^verbatim>\<open>valuation\<close>, operator \<^verbatim>\<open>between\<close> and value
  \<^verbatim>\<open>["10","50"]\<close>, parsed against a catalog that has a column
  \<^verbatim>\<open>valuation\<close>, gives one descriptor with the same name, the same operator
  and the same two values in the same order (its type is \<^verbatim>\<open>number\<close>).
\<close>

theorem useInitialFilters_roundtrip_valuation:
  assumes "\<exists>c \<in> set columns. name c = ''valuation''"
  shows "useInitialFilters [(''valuation'', ''between:10,50'')] columns
         = Inr [\<lparr>f_name = ''valuation'', f_operator = Some ''between'',
                 f_value = Items [''10'', ''50''], f_type = ''number''\<rparr>]"
proof -
  from assms obtain c where c: "find (\<lambda>c. name c = ''valuation'') columns = Some c"
    and n: "name c = ''valuation''"
    by (rule find_name_Some)
  from n have t: "getUIFieldType c False = ''number''"
    by (simp add: getUIFieldType_def fieldTypeOf_def)
  have "makeFilter c ''valuation'' ''between:10,50''
        = Inr \<lparr>f_name = ''valuation'', f_operator = Some ''between'',
               f_value = Items [''10'', ''50''], f_type = ''number''\<rparr>"
    by (simp add: makeFilter_def t)
  with c show ?thesis by (simp add: useInitialFilters_def)
qed

theorem useInitialFilters_roundtrip_valuation_witness:
  "(\<exists>c \<in> set [\<lparr>name = ''name'', visible = True, cfType = None\<rparr>,
               \<lparr>name = ''valuation'', visible = False, cfType = None\<rparr>].
      name c = ''valuation'')
   \<and> useInitialFilters [(''valuation'', ''between:10,50'')]
        [\<lparr>name = ''name'', visible = True, cfType = None\<rparr>,
         \<lparr>name = ''valuation'', visible = False, cfType = None\<rparr>]
     = Inr [\<lparr>f_name = ''valuation'', f_operator = Some ''between'',
             f_value = Items [''10'', ''50''], f_type = ''number''\<rparr>]"
  using useInitialFilters_roundtrip_valuation
    [of "[\<lparr>name = ''name'', visible = True, cfType = None\<rparr>,
          \<lparr>name = ''valuation'', visible = False, cfType = None\<rparr>]"]
  by simp

text \<open>
  Claim C4: when every key of the parameter list has a column in the catalog, the list
  of descriptors is in the order of the parameters: the descriptor at each position is
  the one made from the parameter at that position, so the names of the descriptors
  are the keys in their order. The parse returns such a list unless it raises, which
  it does only when some raw value is the word \<^verbatim>\<open>between\<close> alone.
\<close>

theorem useInitialFilters_preserves_order:
  assumes "\<forall>p \<in> set ps. \<exists>c \<in> set columns. name c = fst p"
  shows "case useInitialFilters ps columns of
           Inl e \<Rightarrow> \<exists>p \<in> set ps. snd p = ''between''
         | Inr fs \<Rightarrow>
             map f_name fs = map fst ps
             \<and> list_all2 (\<lambda>p f. \<exists>c. find (\<lambda>c. name c = fst p) columns = Some c
                                 \<and> makeFilter c (fst p) (snd p) = Inr f) ps fs"
proof (cases "useInitialFilters ps columns")
  case (Inl e)
  then have "\<not> (\<exists>fs. forEach_params columns ps [] = Inr fs)"
    by (simp add: useInitialFilters_def)
  then obtain p where "p \<in> set ps" "snd p = ''between''"
    unfolding forEach_params_returns_iff by blast
  with Inl show ?thesis by auto
next
  case (Inr fs)
  from assms have m: "\<forall>p \<in> set ps. find (\<lambda>c. name c = fst p) columns \<noteq> None"
    by (auto simp: find_None_iff)
  from Inr have "forEach_params columns ps [] = Inr fs"
    by (simp add: useInitialFilters_def)
  from forEach_params_order [OF this m]
  have l: "list_all2 (\<lambda>p f. \<exists>c. find (\<lambda>c. name c = fst p) columns = Some c
                          \<and> makeFilter c (fst p) (snd p) = Inr f) ps fs"
    by simp
  with list_all2_names [OF l] Inr show ?thesis by simp
qed

theorem useInitialFilters_preserves_order_witness:
  "list_all (\<lambda>p. \<exists>c \<in> set [\<lparr>name = ''a'', visible = True, cfType = None\<rparr>,
                              \<lparr>name = ''b'', visible = True, cfType = None\<rparr>].
                    name c = fst p)
            [(''b'', ''is:1''), (''a'', ''is:2'')]
   \<and> (\<exists>fs. useInitialFilters [(''b'', ''is:1''), (''a'', ''is:2'')]
              [\<lparr>name = ''a'', visible = True, cfType = None\<rparr>,
               \<lparr>name = ''b'', visible = True, cfType = None\<rparr>] = Inr fs
            \<and> map f_name fs = [''b'', ''a''])"
proof -
  have r: "useInitialFilters [(''b'', ''is:1''), (''a'', ''is:2'')]
              [\<lparr>name = ''a'', visible = True, cfType = None\<rparr>,
               \<lparr>name = ''b'', visible = True, cfType = None\<rparr>]
           = Inr [\<lparr>f_name = ''b'', f_operator = Some ''is'', f_value = Scalar ''1'',
                   f_type = ''string''\<rparr>,
                  \<lparr>f_name = ''a'', f_operator = Some ''is'', f_value = Scalar ''2'',
                   f_type = ''string''\<rparr>]"
    by (simp add: useInitialFilters_def makeFilter_def getUIFieldType_def fieldTypeOf_def)
  show ?thesis
    using useInitialFilters_preserves_order
      [of "[(''b'', ''is:1''), (''a'', ''is:2'')]"
          "[\<lparr>name = ''a'', visible = True, cfType = None\<rparr>,
            \<lparr>name = ''b'', visible = True, cfType = None\<rparr>]"]
    by (simp add: r)
qed

text \<open>
  Claim C5: a parameter whose key is the name of no column of the catalog gives no
  descriptor: the parse is the parse of the list without that parameter. In
  particular the parameters \<^verbatim>\<open>unrelatedKey=x\<close>, \<^verbatim>\<open>status=is:AVAILABLE\<close>
  against a catalog that has a column \<^verbatim>\<open>status\<close> (and none named
  \<^verbatim>\<open>unrelatedKey\<close>) give exactly one descriptor, with name
  \<^verbatim>\<open>status\<close>, operator \<^verbatim>\<open>is\<close> and value \<^verbatim>\<open>AVAILABLE\<close>.
\<close>

theorem useInitialFilters_skips_unknown_keys:
  "(\<not> (\<exists>c \<in> set columns. name c = k) \<longrightarrow>
      useInitialFilters (ps1 @ (k, v) # ps2) columns = useInitialFilters (ps1 @ ps2) columns)
   \<and> (\<not> (\<exists>c \<in> set columns. name c = ''unrelatedKey'')
        \<and> (\<exists>c \<in> set columns. name c = ''status'') \<longrightarrow>
      useInitialFilters [(''unrelatedKey'', ''x''), (''status'', ''is:AVAILABLE'')] columns
      = Inr [\<lparr>f_name = ''status'', f_operator = Some ''is'',
              f_value = Scalar ''AVAILABLE'', f_type = ''enum''\<rparr>])"
proof (intro conjI impI)
  assume "\<not> (\<exists>c \<in> set columns. name c = k)"
  then have "find (\<lambda>c. name c = k) columns = None"
    by (auto simp: find_None_iff)
  then show "useInitialFilters (ps1 @ (k, v) # ps2) columns = useInitialFilters (ps1 @ ps2) columns"
    by (simp add: useInitialFilters_def forEach_params_skip)
next
  assume a: "\<not> (\<exists>c \<in> set columns. name c = ''unrelatedKey'')
             \<and> (\<exists>c \<in> set columns. name c = ''status'')"
  then have u: "find (\<lambda>c. name c = ''unrelatedKey'') columns = None"
    by (auto simp: find_None_iff)
  from a have "\<exists>c \<in> set columns. name c = ''status''" by simp
  then obtain c where c: "find (\<lambda>c. name c = ''status'') columns = Some c"
    and n: "name c = ''status''"
    by (rule find_name_Some)
  from n have t: "getUIFieldType c False = ''enum''"
    by (simp add: getUIFieldType_def fieldTypeOf_def)
  have "makeFilter c ''status'' ''is:AVAILABLE''
        = Inr \<lparr>f_name = ''status'', f_operator = Some ''is'',
               f_value = Scalar ''AVAILABLE'', f_type = ''enum''\<rparr>"
    by (simp add: makeFilter_def t)
  with u c show "useInitialFilters [(''unrelatedKey'', ''x''), (''status'', ''is:AVAILABLE'')] columns
      = Inr [\<lparr>f_name = ''status'', f_operator = Some ''is'',
              f_value = Scalar ''AVAILABLE'', f_type = ''enum''\<rparr>]"
    by (simp add: useInitialFilters_def)
qed

theorem useInitialFilters_skips_unknown_keys_witness:
  "\<not> (\<exists>c \<in> set [\<lparr>name = ''status'', visible = True, cfType = None\<rparr>].
         name c = ''unrelatedKey'')
   \<and> (\<exists>c \<in> set [\<lparr>name = ''status'', visible = True, cfType = None\<rparr>].
         name c = ''status'')
   \<and> useInitialFilters ([(''status'', ''is:AVAILABLE'')] @ (''unrelatedKey'', ''x'') # [])
        [\<lparr>name = ''status'', visible = True, cfType = None\<rparr>]
     = useInitialFilters ([(''status'', ''is:AVAILABLE'')] @ [])
        [\<lparr>name = ''status'', visible = True, cfType = None\<rparr>]
   \<and> useInitialFilters [(''unrelatedKey'', ''x''), (''status'', ''is:AVAILABLE'')]
        [\<lparr>name = ''status'', visible = True, cfType = None\<rparr>]
     = Inr [\<lparr>f_name = ''status'', f_operator = Some ''is'',
             f_value = Scalar ''AVAILABLE'', f_type = ''enum''\<rparr>]"
  using useInitialFilters_skips_unknown_keys
    [of "[\<lparr>name = ''status'', visible = True, cfType = None\<rparr>]" "''unrelatedKey''"
        "[(''status'', ''is:AVAILABLE'')]" "''x''" "[]"]
  by simp

section \<open>The claims about the column availability resolver\<close>

text \<open>
  Claim C6: for every catalog, every list of used columns and both operations, every
  column that \<^verbatim>\<open>getAvailableColumns\<close> returns is visible, and its name is not
  the name of a used column.
\<close>

theorem getAvailableColumns_visible_and_unused:
  "\<forall>c \<in> set (getAvailableColumns columns usedColumns operation).
     visible c \<and> name c \<notin> used_name ` set usedColumns"
  by (auto simp: getAvailableColumns_def find_None_iff)

theorem getAvailableColumns_visible_and_unused_witness:
  "\<lparr>name = ''id'', visible = True, cfType = None\<rparr>
     \<in> set (getAvailableColumns
              [\<lparr>name = ''id'', visible = True, cfType = None\<rparr>,
               \<lparr>name = ''kit'', visible = False, cfType = None\<rparr>,
               \<lparr>name = ''status'', visible = True, cfType = None\<rparr>]
              [UsedSort \<lparr>s_name = ''status'', s_direction = ''asc''\<rparr>] Op_filter)
   \<and> visible \<lparr>name = ''id'', visible = True, cfType = None\<rparr>
   \<and> name \<lparr>name = ''id'', visible = True, cfType = None\<rparr>
       \<notin> used_name ` set [UsedSort \<lparr>s_name = ''status'', s_direction = ''asc''\<rparr>]"
proof -
  have m: "\<lparr>name = ''id'', visible = True, cfType = None\<rparr>
     \<in> set (getAvailableColumns
              [\<lparr>name = ''id'', visible = True, cfType = None\<rparr>,
               \<lparr>name = ''kit'', visible = False, cfType = None\<rparr>,
               \<lparr>name = ''status'', visible = True, cfType = None\<rparr>]
              [UsedSort \<lparr>s_name = ''status'', s_direction = ''asc''\<rparr>] Op_filter)"
    by (simp add: getAvailableColumns_def)
  from m getAvailableColumns_visible_and_unused
    [of "[\<lparr>name = ''id'', visible = True, cfType = None\<rparr>,
          \<lparr>name = ''kit'', visible = False, cfType = None\<rparr>,
          \<lparr>name = ''status'', visible = True, cfType = None\<rparr>]"
        "[UsedSort \<lparr>s_name = ''status'', s_direction = ''asc''\<rparr>]" Op_filter]
  show ?thesis by blast
qed

text \<open>
  Claim C7: for every catalog and every list of used columns,
  \<^verbatim>\<open>getAvailableColumns\<close> with the operation \<^verbatim>\<open>sort\<close> returns no column
  that resolves to the UI type \<^verbatim>\<open>array\<close> (the column \<^verbatim>\<open>tags\<close>) and no
  custom-field column whose primitive kind is \<^verbatim>\<open>MULTILINE_TEXT\<close>.
\<close>

theorem getAvailableColumns_sort_exclusions:
  "\<forall>c \<in> set (getAvailableColumns columns usedColumns Op_sort).
     getUIFieldType c False \<noteq> ''array''
     \<and> name c \<noteq> ''tags''
     \<and> \<not> (prefix ''cf_'' (name c) \<and> cfType c = Some ''MULTILINE_TEXT'')"
proof
  fix c
  assume "c \<in> set (getAvailableColumns columns usedColumns Op_sort)"
  then have t: "name c \<noteq> ''tags''"
    and m: "prefix ''cf_'' (name c) \<longrightarrow> or_empty (cfType c) \<noteq> ''MULTILINE_TEXT''"
    by (auto simp: getAvailableColumns_def split: if_splits)
  from t have "getUIFieldType c False \<noteq> ''array''"
    by (simp add: getUIFieldType_def literal_array_iff fieldTypeOf_array_iff)
  moreover from m have "\<not> (prefix ''cf_'' (name c) \<and> cfType c = Some ''MULTILINE_TEXT'')"
    by auto
  ultimately show "getUIFieldType c False \<noteq> ''array'' \<and> name c \<noteq> ''tags''
     \<and> \<not> (prefix ''cf_'' (name c) \<and> cfType c = Some ''MULTILINE_TEXT'')"
    using t by simp
qed

theorem getAvailableColumns_sort_exclusions_witness:
  "getAvailableColumns
     [\<lparr>name = ''tags'', visible = True, cfType = None\<rparr>,
      \<lparr>name = ''cf_notes'', visible = True, cfType = Some ''MULTILINE_TEXT''\<rparr>,
      \<lparr>name = ''cf_serial'', visible = True, cfType = Some ''TEXT''\<rparr>] [] Op_sort
   = [\<lparr>name = ''cf_serial'', visible = True, cfType = Some ''TEXT''\<rparr>]
   \<and> getUIFieldType \<lparr>name = ''cf_serial'', visible = True, cfType = Some ''TEXT''\<rparr> False
       \<noteq> ''array''
   \<and> \<not> (prefix ''cf_'' (name \<lparr>name = ''cf_serial'', visible = True, cfType = Some ''TEXT''\<rparr>)
         \<and> cfType \<lparr>name = ''cf_serial'', visible = True, cfType = Some ''TEXT''\<rparr>
             = Some ''MULTILINE_TEXT'')"
proof -
  have r: "getAvailableColumns
     [\<lparr>name = ''tags'', visible = True, cfType = None\<rparr>,
      \<lparr>name = ''cf_notes'', visible = True, cfType = Some ''MULTILINE_TEXT''\<rparr>,
      \<lparr>name = ''cf_serial'', visible = True, cfType = Some ''TEXT''\<rparr>] [] Op_sort
   = [\<lparr>name = ''cf_serial'', visible = True, cfType = Some ''TEXT''\<rparr>]"
    by (simp add: getAvailableColumns_def)
  show ?thesis
    using getAvailableColumns_sort_exclusions
      [of "[\<lparr>name = ''tags'', visible = True, cfType = None\<rparr>,
            \<lparr>name = ''cf_notes'', visible = True, cfType = Some ''MULTILINE_TEXT''\<rparr>,
            \<lparr>name = ''cf_serial'', visible = True, cfType = Some ''TEXT''\<rparr>]" "[]"]
    unfolding r by simp
qed

section \<open>The claims about the field type resolver and the default values\<close>

text \<open>
  Claim C9: \<^verbatim>\<open>getUIFieldType\<close> is total. For a custom-field column (a name with
  the prefix \<^verbatim>\<open>cf_\<close>) it returns \<^verbatim>\<open>string\<close> for the kind TEXT,
  \<^verbatim>\<open>text\<close> for MULTILINE_TEXT, \<^verbatim>\<open>boolean\<close> for BOOLEAN, \<^verbatim>\<open>date\<close>
  for DATE, \<^verbatim>\<open>enum\<close> for OPTION, and \<^verbatim>\<open>string\<close> for every other kind,
  an absent one included. For the twelve built-in names it returns the type of the
  table: \<^verbatim>\<open>id\<close> and \<^verbatim>\<open>name\<close> are strings; \<^verbatim>\<open>custody\<close>,
  \<^verbatim>\<open>status\<close>, \<^verbatim>\<open>category\<close>, \<^verbatim>\<open>location\<close> and \<^verbatim>\<open>kit\<close> are
  enums; \<^verbatim>\<open>description\<close> is text; \<^verbatim>\<open>valuation\<close> is a number;
  \<^verbatim>\<open>availableToBook\<close> is a boolean; \<^verbatim>\<open>createdAt\<close> is a date;
  \<^verbatim>\<open>tags\<close> is an array.
\<close>

theorem getUIFieldType_table:
  "(prefix ''cf_'' (name c) \<longrightarrow>
      getUIFieldType c False =
        (if cfType c = Some ''TEXT'' then ''string''
         else if cfType c = Some ''MULTILINE_TEXT'' then ''text''
         else if cfType c = Some ''BOOLEAN'' then ''boolean''
         else if cfType c = Some ''DATE'' then ''date''
         else if cfType c = Some ''OPTION'' then ''enum''
         else ''string''))
   \<and> (name c = ''id'' \<longrightarrow> getUIFieldType c False = ''string'')
   \<and> (name c = ''name'' \<longrightarrow> getUIFieldType c False = ''string'')
   \<and> (name c = ''custody'' \<longrightarrow> getUIFieldType c False = ''enum'')
   \<and> (name c = ''status'' \<longrightarrow> getUIFieldType c False = ''enum'')
   \<and> (name c = ''category'' \<longrightarrow> getUIFieldType c False = ''enum'')
   \<and> (name c = ''location'' \<longrightarrow> getUIFieldType c False = ''enum'')
   \<and> (name c = ''kit'' \<longrightarrow> getUIFieldType c False = ''enum'')
   \<and> (name c = ''description'' \<longrightarrow> getUIFieldType c False = ''text'')
   \<and> (name c = ''valuation'' \<longrightarrow> getUIFieldType c False = ''number'')
   \<and> (name c = ''availableToBook'' \<longrightarrow> getUIFieldType c False = ''boolean'')
   \<and> (name c = ''createdAt'' \<longrightarrow> getUIFieldType c False = ''date'')
   \<and> (name c = ''tags'' \<longrightarrow> getUIFieldType c False = ''array'')
   \<and> getUIFieldType c False \<in> set [''string'', ''text'', ''boolean'', ''date'',
                                    ''number'', ''enum'', ''array'']"
proof -
  have cf: "prefix ''cf_'' (name c) \<longrightarrow>
      getUIFieldType c False =
        (if cfType c = Some ''TEXT'' then ''string''
         else if cfType c = Some ''MULTILINE_TEXT'' then ''text''
         else if cfType c = Some ''BOOLEAN'' then ''boolean''
         else if cfType c = Some ''DATE'' then ''date''
         else if cfType c = Some ''OPTION'' then ''enum''
         else ''string'')"
    by (simp add: getUIFieldType_def fieldTypeOf_custom)
  have builtin:
    "name c = ''id'' \<longrightarrow> getUIFieldType c False = ''string''"
    "name c = ''name'' \<longrightarrow> getUIFieldType c False = ''string''"
    "name c = ''custody'' \<longrightarrow> getUIFieldType c False = ''enum''"
    "name c = ''status'' \<longrightarrow> getUIFieldType c False = ''enum''"
    "name c = ''category'' \<longrightarrow> getUIFieldType c False = ''enum''"
    "name c = ''location'' \<longrightarrow> getUIFieldType c False = ''enum''"
    "name c = ''kit'' \<longrightarrow> getUIFieldType c False = ''enum''"
    "name c = ''description'' \<longrightarrow> getUIFieldType c False = ''text''"
    "name c = ''valuation'' \<longrightarrow> getUIFieldType c False = ''number''"
    "name c = ''availableToBook'' \<longrightarrow> getUIFieldType c False = ''boolean''"
    "name c = ''createdAt'' \<longrightarrow> getUIFieldType c False = ''date''"
    "name c = ''tags'' \<longrightarrow> getUIFieldType c False = ''array''"
    by (simp_all add: getUIFieldType_def fieldTypeOf_def)
  have total: "getUIFieldType c False \<in> set [''string'', ''text'', ''boolean'', ''date'',
                                    ''number'', ''enum'', ''array'']"
    by (cases "fieldTypeOf c") (simp_all add: getUIFieldType_def)
  from cf builtin total show ?thesis by blast
qed

theorem getUIFieldType_table_witness:
  "prefix ''cf_'' (name \<lparr>name = ''cf_notes'', visible = True, cfType = Some ''MULTILINE_TEXT''\<rparr>)
   \<and> getUIFieldType \<lparr>name = ''cf_notes'', visible = True, cfType = Some ''MULTILINE_TEXT''\<rparr> False
       = ''text''
   \<and> getUIFieldType \<lparr>name = ''cf_weight'', visible = True, cfType = Some ''AMOUNT''\<rparr> False
       = ''string''
   \<and> getUIFieldType \<lparr>name = ''valuation'', visible = True, cfType = None\<rparr> False = ''number''
   \<and> getUIFieldType \<lparr>name = ''tags'', visible = True, cfType = None\<rparr> False = ''array''
   \<and> getUIFieldType \<lparr>name = ''createdAt'', visible = True, cfType = None\<rparr> False = ''date''"
  using getUIFieldType_table [of "\<lparr>name = ''cf_notes'', visible = True, cfType = Some ''MULTILINE_TEXT''\<rparr>"]
    getUIFieldType_table [of "\<lparr>name = ''cf_weight'', visible = True, cfType = Some ''AMOUNT''\<rparr>"]
    getUIFieldType_table [of "\<lparr>name = ''valuation'', visible = True, cfType = None\<rparr>"]
    getUIFieldType_table [of "\<lparr>name = ''tags'', visible = True, cfType = None\<rparr>"]
    getUIFieldType_table [of "\<lparr>name = ''createdAt'', visible = True, cfType = None\<rparr>"]
  by simp

text \<open>
  Claim C8: \<^verbatim>\<open>getDefaultValueForFieldType\<close> returns \<^verbatim>\<open>true\<close> for a column
  of UI type boolean; the calendar date of the current instant (the part of its ISO
  string before the \<^verbatim>\<open>T\<close>) for a column of UI type date; zero for a built-in
  column of UI type number; for a custom field of kind OPTION the first entry of the
  option list of its catalog entry, which is the first entry of the catalog whose name
  after the prefix \<^verbatim>\<open>cf_\<close> is the name of the column; the empty string for a
  custom field of kind OPTION when no entry of the catalog has that name, when its
  entry has no option list or an empty one, and when the catalog is \<^verbatim>\<open>null\<close>;
  and with a \<^verbatim>\<open>null\<close> catalog it returns what it returns with an empty catalog.
  The function is total: no branch of it can raise.
\<close>

theorem getDefaultValueForFieldType_defaults:
  "(getUIFieldType column False = ''boolean'' \<longrightarrow>
      getDefaultValueForFieldType nowISO column customFields = DBool True)
   \<and> (getUIFieldType column False = ''date'' \<and> CHR ''T'' \<notin> set d \<longrightarrow>
      getDefaultValueForFieldType (d @ CHR ''T'' # t) column customFields = DString d)
   \<and> (\<not> prefix ''cf_'' (name column) \<and> getUIFieldType column False = ''number'' \<longrightarrow>
      getDefaultValueForFieldType nowISO column customFields = DNumber 0)
   \<and> (prefix ''cf_'' (name column) \<and> cfType column = Some ''OPTION''
        \<and> (\<forall>e \<in> set before. ''cf_'' @ cf_name e \<noteq> name column)
        \<and> ''cf_'' @ cf_name cf = name column
        \<and> cf_options cf = Some (opt # opts) \<longrightarrow>
      getDefaultValueForFieldType nowISO column (Some (before @ cf # after)) = DString opt)
   \<and> (prefix ''cf_'' (name column) \<and> cfType column = Some ''OPTION''
        \<and> (\<forall>e \<in> set cfs. ''cf_'' @ cf_name e \<noteq> name column) \<longrightarrow>
      getDefaultValueForFieldType nowISO column (Some cfs) = DString [])
   \<and> (prefix ''cf_'' (name column) \<and> cfType column = Some ''OPTION''
        \<and> (\<forall>e \<in> set before. ''cf_'' @ cf_name e \<noteq> name column)
        \<and> ''cf_'' @ cf_name cf = name column
        \<and> (cf_options cf = None \<or> cf_options cf = Some []) \<longrightarrow>
      getDefaultValueForFieldType nowISO column (Some (before @ cf # after)) = DString [])
   \<and> (prefix ''cf_'' (name column) \<and> cfType column = Some ''OPTION'' \<longrightarrow>
      getDefaultValueForFieldType nowISO column None = DString [])
   \<and> getDefaultValueForFieldType nowISO column None
       = getDefaultValueForFieldType nowISO column (Some [])"
proof (intro conjI impI)
  assume b: "getUIFieldType column False = ''boolean''"
  show "getDefaultValueForFieldType nowISO column customFields = DBool True"
  proof (cases "prefix ''cf_'' (name column)")
    case True
    from b have "fieldTypeOf column = UI_boolean"
      by (simp add: getUIFieldType_def literal_boolean_iff)
    with True have "cfType column = Some ''BOOLEAN''"
      by (simp add: fieldTypeOf_custom split: if_splits)
    with True show ?thesis by (simp add: getDefaultValueForFieldType_def)
  next
    case False
    with b show ?thesis by (simp add: getDefaultValueForFieldType_def)
  qed
next
  assume "getUIFieldType column False = ''date'' \<and> CHR ''T'' \<notin> set d"
  then have dt: "getUIFieldType column False = ''date''" and nt: "CHR ''T'' \<notin> set d"
    by simp_all
  show "getDefaultValueForFieldType (d @ CHR ''T'' # t) column customFields = DString d"
  proof (cases "prefix ''cf_'' (name column)")
    case True
    from dt have "fieldTypeOf column = UI_date"
      by (simp add: getUIFieldType_def literal_date_iff)
    with True have "cfType column = Some ''DATE''"
      by (simp add: fieldTypeOf_custom split: if_splits)
    with True nt show ?thesis
      by (simp add: getDefaultValueForFieldType_def isoDate_first)
  next
    case False
    with dt nt show ?thesis
      by (simp add: getDefaultValueForFieldType_def isoDate_first)
  qed
next
  assume "\<not> prefix ''cf_'' (name column) \<and> getUIFieldType column False = ''number''"
  then show "getDefaultValueForFieldType nowISO column customFields = DNumber 0"
    by (simp add: getDefaultValueForFieldType_def)
next
  assume a: "prefix ''cf_'' (name column) \<and> cfType column = Some ''OPTION''
        \<and> (\<forall>e \<in> set before. ''cf_'' @ cf_name e \<noteq> name column)
        \<and> ''cf_'' @ cf_name cf = name column
        \<and> cf_options cf = Some (opt # opts)"
  then have "findCustomField (Some (before @ cf # after)) column = Some cf"
    by (simp add: findCustomField_first)
  with a show "getDefaultValueForFieldType nowISO column (Some (before @ cf # after)) = DString opt"
    by (simp add: getDefaultValueForFieldType_def firstOption_def)
next
  assume a: "prefix ''cf_'' (name column) \<and> cfType column = Some ''OPTION''
        \<and> (\<forall>e \<in> set cfs. ''cf_'' @ cf_name e \<noteq> name column)"
  then have "findCustomField (Some cfs) column = None"
    by (simp add: findCustomField_no_entry)
  with a show "getDefaultValueForFieldType nowISO column (Some cfs) = DString []"
    by (simp add: getDefaultValueForFieldType_def firstOption_def)
next
  assume a: "prefix ''cf_'' (name column) \<and> cfType column = Some ''OPTION''
        \<and> (\<forall>e \<in> set before. ''cf_'' @ cf_name e \<noteq> name column)
        \<and> ''cf_'' @ cf_name cf = name column
        \<and> (cf_options cf = None \<or> cf_options cf = Some [])"
  then have "findCustomField (Some (before @ cf # after)) column = Some cf"
    by (simp add: findCustomField_first)
  moreover from a have "cf_options cf = None \<or> cf_options cf = Some []" by simp
  ultimately have "firstOption (findCustomField (Some (before @ cf # after)) column) = []"
    by (auto simp: firstOption_def)
  with a show "getDefaultValueForFieldType nowISO column (Some (before @ cf # after)) = DString []"
    by (simp add: getDefaultValueForFieldType_def)
next
  assume "prefix ''cf_'' (name column) \<and> cfType column = Some ''OPTION''"
  then show "getDefaultValueForFieldType nowISO column None = DString []"
    by (simp add: getDefaultValueForFieldType_def findCustomField_null firstOption_def)
next
  show "getDefaultValueForFieldType nowISO column None
       = getDefaultValueForFieldType nowISO column (Some [])"
    by (simp add: getDefaultValueForFieldType_def findCustomField_def)
qed

theorem getDefaultValueForFieldType_defaults_witness:
  "getDefaultValueForFieldType ''2026-11-03T10:17:00.000Z''
     \<lparr>name = ''availableToBook'', visible = True, cfType = None\<rparr> None = DBool True
   \<and> getDefaultValueForFieldType ''2026-11-03T10:17:00.000Z''
       \<lparr>name = ''createdAt'', visible = True, cfType = None\<rparr> None = DString ''2026-11-03''
   \<and> getDefaultValueForFieldType ''2026-11-03T10:17:00.000Z''
       \<lparr>name = ''valuation'', visible = True, cfType = None\<rparr> None = DNumber 0
   \<and> getDefaultValueForFieldType ''2026-11-03T10:17:00.000Z''
       \<lparr>name = ''cf_size'', visible = True, cfType = Some ''OPTION''\<rparr>
       (Some [\<lparr>cf_name = ''other'', cf_type = ''OPTION'', cf_options = Some [''X'']\<rparr>,
              \<lparr>cf_name = ''size'', cf_type = ''OPTION'', cf_options = Some [''A'', ''B'']\<rparr>,
              \<lparr>cf_name = ''size'', cf_type = ''OPTION'', cf_options = Some [''Z'']\<rparr>])
     = DString ''A''
   \<and> getDefaultValueForFieldType ''2026-11-03T10:17:00.000Z''
       \<lparr>name = ''cf_size'', visible = True, cfType = Some ''OPTION''\<rparr>
       (Some [\<lparr>cf_name = ''other'', cf_type = ''OPTION'', cf_options = Some [''X'']\<rparr>,
              \<lparr>cf_name = ''colour'', cf_type = ''OPTION'', cf_options = Some [''Y'']\<rparr>])
     = DString []
   \<and> getDefaultValueForFieldType ''2026-11-03T10:17:00.000Z''
       \<lparr>name = ''cf_size'', visible = True, cfType = Some ''OPTION''\<rparr>
       (Some [\<lparr>cf_name = ''other'', cf_type = ''OPTION'', cf_options = Some [''X'']\<rparr>,
              \<lparr>cf_name = ''size'', cf_type = ''OPTION'', cf_options = Some []\<rparr>,
              \<lparr>cf_name = ''size'', cf_type = ''OPTION'', cf_options = Some [''Z'']\<rparr>])
     = DString []
   \<and> getDefaultValueForFieldType ''2026-11-03T10:17:00.000Z''
       \<lparr>name = ''cf_size'', visible = True, cfType = Some ''OPTION''\<rparr> None
     = DString []"
proof -
  let ?now = "''2026-11-03T10:17:00.000Z''"
  let ?size = "\<lparr>name = ''cf_size'', visible = True, cfType = Some ''OPTION''\<rparr>"
  let ?other = "\<lparr>cf_name = ''other'', cf_type = ''OPTION'', cf_options = Some [''X'']\<rparr>"
  let ?colour = "\<lparr>cf_name = ''colour'', cf_type = ''OPTION'', cf_options = Some [''Y'']\<rparr>"
  let ?ab = "\<lparr>cf_name = ''size'', cf_type = ''OPTION'', cf_options = Some [''A'', ''B'']\<rparr>"
  let ?empty = "\<lparr>cf_name = ''size'', cf_type = ''OPTION'', cf_options = Some []\<rparr>"
  let ?late = "\<lparr>cf_name = ''size'', cf_type = ''OPTION'', cf_options = Some [''Z'']\<rparr>"
  have t: "getUIFieldType \<lparr>name = ''availableToBook'', visible = True, cfType = None\<rparr> False = ''boolean''"
    "getUIFieldType \<lparr>name = ''createdAt'', visible = True, cfType = None\<rparr> False = ''date''"
    "getUIFieldType \<lparr>name = ''valuation'', visible = True, cfType = None\<rparr> False = ''number''"
    by (simp_all add: getUIFieldType_def fieldTypeOf_def)
  have c1: "getDefaultValueForFieldType ?now
     \<lparr>name = ''availableToBook'', visible = True, cfType = None\<rparr> None = DBool True"
    using getDefaultValueForFieldType_defaults
      [where column = "\<lparr>name = ''availableToBook'', visible = True, cfType = None\<rparr>"
         and nowISO = ?now and customFields = None, THEN conjunct1]
    by (simp add: t)
  have c2: "getDefaultValueForFieldType ?now
       \<lparr>name = ''createdAt'', visible = True, cfType = None\<rparr> None = DString ''2026-11-03''"
    using getDefaultValueForFieldType_defaults
      [where column = "\<lparr>name = ''createdAt'', visible = True, cfType = None\<rparr>"
         and customFields = None and d = "''2026-11-03''" and t = "''10:17:00.000Z''",
       THEN conjunct2, THEN conjunct1]
    by (simp add: t)
  have c3: "getDefaultValueForFieldType ?now
       \<lparr>name = ''valuation'', visible = True, cfType = None\<rparr> None = DNumber 0"
    using getDefaultValueForFieldType_defaults
      [where column = "\<lparr>name = ''valuation'', visible = True, cfType = None\<rparr>"
         and nowISO = ?now and customFields = None,
       THEN conjunct2, THEN conjunct2, THEN conjunct1]
    by (simp add: t)
  have c4: "getDefaultValueForFieldType ?now ?size (Some [?other, ?ab, ?late]) = DString ''A''"
    using getDefaultValueForFieldType_defaults
      [where column = ?size and nowISO = ?now and before = "[?other]" and cf = ?ab
         and after = "[?late]" and opt = "''A''" and opts = "[''B'']",
       THEN conjunct2, THEN conjunct2, THEN conjunct2, THEN conjunct1]
    by simp
  have c5: "getDefaultValueForFieldType ?now ?size (Some [?other, ?colour]) = DString []"
    using getDefaultValueForFieldType_defaults
      [where column = ?size and nowISO = ?now and cfs = "[?other, ?colour]",
       THEN conjunct2, THEN conjunct2, THEN conjunct2, THEN conjunct2, THEN conjunct1]
    by simp
  have c6: "getDefaultValueForFieldType ?now ?size (Some [?other, ?empty, ?late]) = DString []"
    using getDefaultValueForFieldType_defaults
      [where column = ?size and nowISO = ?now and before = "[?other]" and cf = ?empty
         and after = "[?late]",
       THEN conjunct2, THEN conjunct2, THEN conjunct2, THEN conjunct2, THEN conjunct2,
       THEN conjunct1]
    by simp
  have c7: "getDefaultValueForFieldType ?now ?size None = DString []"
    using getDefaultValueForFieldType_defaults
      [where column = ?size and nowISO = ?now,
       THEN conjunct2, THEN conjunct2, THEN conjunct2, THEN conjunct2, THEN conjunct2,
       THEN conjunct2, THEN conjunct1]
    by simp
  from c1 c2 c3 c4 c5 c6 c7 show ?thesis by simp
qed

text \<open>
  Claim C10: for a custom-field column whose primitive kind is not OPTION (DATE,
  BOOLEAN, TEXT, MULTILINE_TEXT, any other kind or none), the value of
  \<^verbatim>\<open>getDefaultValueForFieldType\<close> does not depend on the custom-field catalog:
  any two catalogs, \<^verbatim>\<open>null\<close> included, give the same default, since the kind
  is read from the column's own \<^verbatim>\<open>cfType\<close> and only the OPTION branch reads the
  catalog entry.
\<close>

theorem getDefaultValueForFieldType_catalog_independent:
  assumes "prefix ''cf_'' (name column)" and "cfType column \<noteq> Some ''OPTION''"
  shows "getDefaultValueForFieldType nowISO column customFields1
         = getDefaultValueForFieldType nowISO column customFields2"
  using assms by (simp add: getDefaultValueForFieldType_def)

theorem getDefaultValueForFieldType_catalog_independent_witness:
  "prefix ''cf_'' (name \<lparr>name = ''cf_bought'', visible = True, cfType = Some ''DATE''\<rparr>)
   \<and> cfType \<lparr>name = ''cf_bought'', visible = True, cfType = Some ''DATE''\<rparr> \<noteq> Some ''OPTION''
   \<and> getDefaultValueForFieldType ''2026-11-03T10:17:00.000Z''
        \<lparr>name = ''cf_bought'', visible = True, cfType = Some ''DATE''\<rparr> None
      = getDefaultValueForFieldType ''2026-11-03T10:17:00.000Z''
        \<lparr>name = ''cf_bought'', visible = True, cfType = Some ''DATE''\<rparr>
        (Some [\<lparr>cf_name = ''bought'', cf_type = ''OPTION'', cf_options = Some [''A'']\<rparr>])"
  using getDefaultValueForFieldType_catalog_independent
    [of "\<lparr>name = ''cf_bought'', visible = True, cfType = Some ''DATE''\<rparr>"
        "''2026-11-03T10:17:00.000Z''" None
        "Some [\<lparr>cf_name = ''bought'', cf_type = ''OPTION'', cf_options = Some [''A'']\<rparr>]"]
  by simp

end
